theory Spec2Isabelle
  imports Complex_Main
begin

section \<open>Data model of the pipeline context\<close>

text \<open>
  The run-orchestration client keeps one \<open>PipelineState\<close> in a reactive container and
  two mutable references (the abort controller and the stream reader of the current run).
  Every mutation is a functional update \<open>setState (\<lambda>s. \<dots>)\<close>, so each operation is modelled
  as a function from the previous state to the next one.

  JavaScript numbers are only stored and copied by this code, never computed with, so
  they are modelled as \<open>real\<close>. A property that is absent from an object (it reads as
  \<open>undefined\<close>) or that is \<open>null\<close> is modelled as \<open>None\<close>. The dictionaries
  \<open>Record<string, \<dots>>\<close> are plain objects: a map holds their own properties, and
  reading a key that is not an own property falls through to the properties every object
  inherits (see \<open>getMetrics\<close>).
\<close>

type_synonym number = real

datatype AgentStatus = A_idle | A_running | A_done | A_error

datatype PipelineStatus = P_idle | P_running | P_done | P_stopped

datatype ProviderType = Simulation | Ollama | Lmstudio | Llamacpp | Transformers

datatype AgentType =
  Router | Coder | Analyzer | Synthesizer | Validator | Input | Output | Custom

record NodeConfig =
  provider :: ProviderType
  modelId :: string
  systemPrompt :: string
  maxTokens :: number
  temperature :: number
  tools :: "bool option option"

text \<open>
  The objects stored in the dictionary need not have all properties of the type
  \<open>AgentMetrics\<close>: \<open>agent_start\<close> builds an object with \<open>status\<close> and \<open>provider\<close> only
  for an id without a record, and an update of an inherited value keeps no property at
  all. So every field is optional. The property \<open>output\<close> is the field \<open>output_str\<close>.
\<close>

record AgentMetrics =
  status :: "AgentStatus option"
  tokens :: "number option"
  tokensPerSec :: "number option"
  latencyMs :: "number option"
  vramGb :: "number option"
  output_str :: "string option"
  provider :: "ProviderType option"

record ParallelStageInfo =
  stageIndex :: "number option"
  agentIds :: "string list option"

record ProviderStatus =
  ollama :: bool
  lmstudio :: bool
  llamacpp :: bool
  transformers :: bool

record SelectedNodeInfo =
  node_id :: string
  label :: string
  agentType :: AgentType

record PipelineState =
  status :: PipelineStatus
  prompt :: string
  agentMetrics :: "string \<rightharpoonup> AgentMetrics"
  totalTokens :: number
  totalMs :: number
  error :: "string option"
  useRealModels :: bool
  providerType :: ProviderType
  providerStatus :: ProviderStatus
  availableModels :: "string \<rightharpoonup> string list"
  selectedNode :: "SelectedNodeInfo option"
  nodeConfigs :: "string \<rightharpoonup> NodeConfig"
  activeParallelStage :: "ParallelStageInfo option"

text \<open>The two references: an abort controller and a stream reader, each with its flag.\<close>

record AbortController =
  aborted :: bool

record StreamReader =
  cancelled :: bool

record Session =
  state :: PipelineState
  abortRef :: "AbortController option"
  readerRef :: "StreamReader option"

section \<open>Defaults\<close>

definition DEFAULT_AGENT_IDS :: "string list" where
  "DEFAULT_AGENT_IDS =
     [''router-1'', ''coder-1'', ''analyzer-1'', ''validator-1'', ''synthesizer-1'']"

definition idleMetrics :: AgentMetrics where
  "idleMetrics =
     \<lparr>AgentMetrics.status = Some A_idle, tokens = Some 0, tokensPerSec = Some 0,
      latencyMs = Some 0, vramGb = Some 0, output_str = Some [],
      provider = Some Simulation\<rparr>"

definition defaultMetrics :: "string \<rightharpoonup> AgentMetrics" where
  "defaultMetrics = map_of (map (\<lambda>i. (i, idleMetrics)) DEFAULT_AGENT_IDS)"

definition DEFAULT_PROVIDER_STATUS :: ProviderStatus where
  "DEFAULT_PROVIDER_STATUS =
     \<lparr>ollama = False, lmstudio = False, llamacpp = False, transformers = False\<rparr>"

definition initialState :: PipelineState where
  "initialState =
     \<lparr>status = P_idle,
      prompt = ''Build a user authentication REST API with JWT tokens'',
      agentMetrics = defaultMetrics,
      totalTokens = 0,
      totalMs = 0,
      error = None,
      useRealModels = False,
      providerType = Simulation,
      providerStatus = DEFAULT_PROVIDER_STATUS,
      availableModels = Map.empty,
      selectedNode = None,
      nodeConfigs = Map.empty,
      activeParallelStage = None\<rparr>"

definition initialSession :: Session where
  "initialSession = \<lparr>state = initialState, abortRef = None, readerRef = None\<rparr>"

section \<open>Protocol events\<close>

text \<open>
  A parsed frame is dispatched on its \<open>type\<close>. Each constructor carries the properties
  the handler reads; a property read through \<open>??\<close> or stored as it is may be missing.
  The agent id is the dictionary key the handler uses. A frame of any other type matches
  no case of the switch.
\<close>

datatype Event =
    agent_start string "ProviderType option"
  | agent_token string "string option" "number option" "number option"
  | agent_vram string "number option"
  | agent_done string "number option" "number option" "number option" "number option"
      "ProviderType option"
  | stage_parallel "number option" "string list option"
  | pipeline_done "number option" "number option"
  | pipeline_error "string option"
  | unknown_event string

text \<open>The operator \<open>a ?? b\<close>, with a default that is present and with one that may be missing.\<close>

fun nullish :: "'a option \<Rightarrow> 'a \<Rightarrow> 'a" where
  "nullish None d = d"
| "nullish (Some v) d = v"

fun nullish_opt :: "'a option \<Rightarrow> 'a option \<Rightarrow> 'a option" where
  "nullish_opt None d = d"
| "nullish_opt (Some v) d = Some v"

text \<open>String conversion of the left operand of \<open>prev.output + \<dots>\<close>.\<close>

fun js_string :: "string option \<Rightarrow> string" where
  "js_string None = ''undefined''"
| "js_string (Some t) = t"

text \<open>The record \<open>agent_token\<close> falls back to when the id has no record.\<close>

definition tokenFallback :: AgentMetrics where
  "tokenFallback =
     \<lparr>AgentMetrics.status = Some A_running, tokens = Some 0, tokensPerSec = Some 0,
      latencyMs = Some 0, vramGb = Some 0, output_str = Some [],
      provider = Some Simulation\<rparr>"

section \<open>Reading the metrics dictionary\<close>

text \<open>
  The dictionary is a plain object (built by \<open>Object.fromEntries\<close> and by object
  literals), so \<open>s.agentMetrics[id]\<close> yields the own property when there is one, and
  otherwise what \<open>Object.prototype\<close> provides under that name: a built-in function, or
  for \<open>__proto__\<close> the prototype object itself. These values are truthy and not
  nullish, have no enumerable own property and none of the properties of a metrics
  record, so for this code they behave as an object without properties.
\<close>

definition OBJECT_PROTOTYPE_KEYS :: "string list" where
  "OBJECT_PROTOTYPE_KEYS =
     [''constructor'', ''__defineGetter__'', ''__defineSetter__'', ''hasOwnProperty'',
      ''__lookupGetter__'', ''__lookupSetter__'', ''isPrototypeOf'',
      ''propertyIsEnumerable'', ''toString'', ''valueOf'', ''__proto__'',
      ''toLocaleString'']"

definition noProperties :: AgentMetrics where
  "noProperties =
     \<lparr>AgentMetrics.status = None, tokens = None, tokensPerSec = None,
      latencyMs = None, vramGb = None, output_str = None, provider = None\<rparr>"

definition getMetrics :: "(string \<rightharpoonup> AgentMetrics) \<Rightarrow> string \<Rightarrow> AgentMetrics option" where
  "getMetrics m aid =
     (case m aid of
        Some r \<Rightarrow> Some r
      | None \<Rightarrow> if aid \<in> set OBJECT_PROTOTYPE_KEYS then Some noProperties else None)"

text \<open>The spread \<open>{...x}\<close> of a value that may be \<open>undefined\<close>.\<close>

fun spread :: "AgentMetrics option \<Rightarrow> AgentMetrics" where
  "spread None = noProperties"
| "spread (Some r) = r"

section \<open>The transition function\<close>

fun handleEvent :: "Event \<Rightarrow> PipelineState \<Rightarrow> PipelineState" where
  "handleEvent (agent_start aid prov) s =
     s\<lparr>agentMetrics := (agentMetrics s)(aid \<mapsto>
        (spread (getMetrics (agentMetrics s) aid))
          \<lparr>AgentMetrics.status := Some A_running,
           AgentMetrics.provider := Some (nullish prov Simulation)\<rparr>)\<rparr>"
| "handleEvent (agent_token aid tok tt tps) s =
     (let prev = (case getMetrics (agentMetrics s) aid of
                    None \<Rightarrow> tokenFallback
                  | Some p \<Rightarrow> p)
      in s\<lparr>agentMetrics := (agentMetrics s)(aid \<mapsto>
           prev\<lparr>tokens := nullish_opt tt (tokens prev),
                tokensPerSec := nullish_opt tps (tokensPerSec prev),
                output_str := Some (js_string (output_str prev) @ nullish tok [])\<rparr>)\<rparr>)"
| "handleEvent (agent_vram aid v) s =
     (case getMetrics (agentMetrics s) aid of
        None \<Rightarrow> s
      | Some prev \<Rightarrow> s\<lparr>agentMetrics := (agentMetrics s)(aid \<mapsto> prev\<lparr>vramGb := v\<rparr>)\<rparr>)"
| "handleEvent (agent_done aid tt tps lat v prov) s =
     (case getMetrics (agentMetrics s) aid of
        None \<Rightarrow> s
      | Some prev \<Rightarrow>
          s\<lparr>agentMetrics := (agentMetrics s)(aid \<mapsto>
            prev\<lparr>AgentMetrics.status := Some A_done,
                 tokens := nullish_opt tt (tokens prev),
                 tokensPerSec := nullish_opt tps (tokensPerSec prev),
                 latencyMs := nullish_opt lat (latencyMs prev),
                 vramGb := nullish_opt v (vramGb prev),
                 AgentMetrics.provider :=
                   nullish_opt prov (AgentMetrics.provider prev)\<rparr>)\<rparr>)"
| "handleEvent (stage_parallel si ids) s =
     s\<lparr>activeParallelStage := Some \<lparr>stageIndex = si, agentIds = ids\<rparr>\<rparr>"
| "handleEvent (pipeline_done tt tm) s =
     s\<lparr>status := P_done,
       activeParallelStage := None,
       totalTokens := nullish tt (totalTokens s),
       totalMs := nullish tm (totalMs s)\<rparr>"
| "handleEvent (pipeline_error msg) s =
     s\<lparr>status := P_stopped, activeParallelStage := None,
       error := Some (nullish msg ''Unknown error'')\<rparr>"
| "handleEvent (unknown_event ty) s = s"

text \<open>
  The read loop hands the frames of a chunk to \<open>handleEvent\<close> one after the other, in
  the order of their lines.
\<close>

fun applyEvents :: "Event list \<Rightarrow> PipelineState \<Rightarrow> PipelineState" where
  "applyEvents [] s = s"
| "applyEvents (e # es) s = applyEvents es (handleEvent e s)"

section \<open>The run controller\<close>

text \<open>\<open>abortRef.current?.abort()\<close> and \<open>readerRef.current?.cancel()\<close>.\<close>

fun abort :: "AbortController option \<Rightarrow> AbortController option" where
  "abort None = None"
| "abort (Some c) = Some (c\<lparr>aborted := True\<rparr>)"

fun cancel :: "StreamReader option \<Rightarrow> StreamReader option" where
  "cancel None = None"
| "cancel (Some r) = Some (r\<lparr>cancelled := True\<rparr>)"

text \<open>
  \<open>run\<close> is the part of the source function that executes before its first \<open>await\<close>:
  the previous controller is aborted and replaced by a fresh one, and the state update is
  issued. What the request then delivers arrives through \<open>attachReader\<close>,
  \<open>handleEvent\<close> and \<open>run_catch\<close>.
\<close>

definition run :: "Session \<Rightarrow> Session" where
  "run sess =
     sess\<lparr>abortRef := Some \<lparr>aborted = False\<rparr>,
          state := (state sess)\<lparr>status := P_running,
                                agentMetrics := defaultMetrics,
                                totalTokens := 0,
                                totalMs := 0,
                                error := None\<rparr>\<rparr>"

definition attachReader :: "Session \<Rightarrow> Session" where
  "attachReader sess = sess\<lparr>readerRef := Some \<lparr>cancelled = False\<rparr>\<rparr>"

text \<open>
  A value caught by the \<open>catch\<close> of \<open>run\<close>: an \<open>Error\<close> object with its name and
  message, or any other value with its string conversion.
\<close>

datatype Thrown = ErrorObject string string | OtherValue string

fun run_catch :: "Thrown \<Rightarrow> PipelineState \<Rightarrow> PipelineState" where
  "run_catch (ErrorObject nm msg) s =
     (if nm = ''AbortError'' then s
      else s\<lparr>status := P_stopped,
             error := Some (''Connection failed: '' @ msg @ ''. Is the backend running?'')\<rparr>)"
| "run_catch (OtherValue str) s =
     s\<lparr>status := P_stopped,
       error := Some (''Connection failed: '' @ str @ ''. Is the backend running?'')\<rparr>"

definition stop :: "Session \<Rightarrow> Session" where
  "stop sess =
     sess\<lparr>abortRef := abort (abortRef sess),
          readerRef := cancel (readerRef sess),
          state := (state sess)\<lparr>status := P_stopped\<rparr>\<rparr>"

definition reset :: "Session \<Rightarrow> Session" where
  "reset sess =
     sess\<lparr>abortRef := abort (abortRef sess),
          readerRef := cancel (readerRef sess),
          state := (state sess)\<lparr>status := P_idle,
                                agentMetrics := defaultMetrics,
                                totalTokens := 0,
                                totalMs := 0,
                                error := None\<rparr>\<rparr>"

text \<open>A transport is active while a controller is not aborted or a reader not cancelled.\<close>

fun controllerLive :: "AbortController option \<Rightarrow> bool" where
  "controllerLive None = False"
| "controllerLive (Some c) = (\<not> aborted c)"

fun readerLive :: "StreamReader option \<Rightarrow> bool" where
  "readerLive None = False"
| "readerLive (Some r) = (\<not> cancelled r)"

definition transportActive :: "Session \<Rightarrow> bool" where
  "transportActive sess = (controllerLive (abortRef sess) \<or> readerLive (readerRef sess))"

text \<open>Calls of the controller and frames of the stream, interleaved in any order.\<close>

datatype Action = Run | Stop | Reset | Frame Event

fun step :: "Action \<Rightarrow> Session \<Rightarrow> Session" where
  "step Run sess = run sess"
| "step Stop sess = stop sess"
| "step Reset sess = reset sess"
| "step (Frame e) sess = sess\<lparr>state := handleEvent e (state sess)\<rparr>"

fun exec :: "Action list \<Rightarrow> Session \<Rightarrow> Session" where
  "exec [] sess = sess"
| "exec (a # as) sess = exec as (step a sess)"

section \<open>The discovery poll\<close>

text \<open>
  One request of the poll ends in one of four ways: the fetch rejects (network error or
  timeout), the response is not ok, the response is ok and reading its JSON body fails,
  or the response is ok with a parsed body. A parsed body is falsy (\<open>null\<close>, \<open>false\<close>,
  \<open>0\<close>, the empty string) or truthy; of a truthy body the handler reads one property,
  which may be missing.
\<close>

datatype 'a Fetched = Rejected | NotOk | JsonThrows | Json 'a

datatype 'a Payload = Falsy | Truthy 'a

datatype ProvidersJson =
  ProvidersJson "bool option" "bool option" "bool option" "bool option"

type_synonym ProvData = "ProvidersJson option Payload"

type_synonym ModData = "(string \<rightharpoonup> string list) option Payload"

fun rejected :: "'a Fetched \<Rightarrow> bool" where
  "rejected Rejected = True"
| "rejected NotOk = False"
| "rejected JsonThrows = False"
| "rejected (Json d) = False"

fun jsonThrows :: "'a Fetched \<Rightarrow> bool" where
  "jsonThrows Rejected = False"
| "jsonThrows NotOk = False"
| "jsonThrows JsonThrows = True"
| "jsonThrows (Json d) = False"

text \<open>\<open>res.ok ? await res.json() : null\<close>, for a request that did not throw.\<close>

fun dataOf :: "'a Payload Fetched \<Rightarrow> 'a Payload" where
  "dataOf (Json d) = d"
| "dataOf Rejected = Falsy"
| "dataOf NotOk = Falsy"
| "dataOf JsonThrows = Falsy"

fun statusOfProviders :: "ProvidersJson option \<Rightarrow> ProviderStatus" where
  "statusOfProviders None =
     \<lparr>ollama = False, lmstudio = False, llamacpp = False, transformers = False\<rparr>"
| "statusOfProviders (Some (ProvidersJson o1 l1 c1 t1)) =
     \<lparr>ollama = nullish o1 False, lmstudio = nullish l1 False,
      llamacpp = nullish c1 False, transformers = nullish t1 False\<rparr>"

fun spreadProv :: "ProvData \<Rightarrow> PipelineState \<Rightarrow> PipelineState" where
  "spreadProv Falsy s = s"
| "spreadProv (Truthy p) s = s\<lparr>providerStatus := statusOfProviders p\<rparr>"

fun spreadMod :: "ModData \<Rightarrow> PipelineState \<Rightarrow> PipelineState" where
  "spreadMod Falsy s = s"
| "spreadMod (Truthy m) s = s\<lparr>availableModels := nullish m Map.empty\<rparr>"

definition fetchStatus ::
  "ProvData Fetched \<Rightarrow> ModData Fetched \<Rightarrow> PipelineState \<Rightarrow> PipelineState" where
  "fetchStatus provRes modRes s =
     (if rejected provRes \<or> rejected modRes then s
      else if jsonThrows provRes then s
      else if jsonThrows modRes then s
      else spreadMod (dataOf modRes) (spreadProv (dataOf provRes) s))"

text \<open>A request of the poll failed unless it delivered a parsed body.\<close>

fun requestFailed :: "'a Fetched \<Rightarrow> bool" where
  "requestFailed (Json d) = False"
| "requestFailed Rejected = True"
| "requestFailed NotOk = True"
| "requestFailed JsonThrows = True"

section \<open>Auxiliary notions for the properties\<close>

fun isPipelineError :: "Event \<Rightarrow> bool" where
  "isPipelineError (pipeline_error msg) = True"
| "isPipelineError (agent_start aid prov) = False"
| "isPipelineError (agent_token aid tok tt tps) = False"
| "isPipelineError (agent_vram aid v) = False"
| "isPipelineError (agent_done aid tt tps lat v prov) = False"
| "isPipelineError (stage_parallel si ids) = False"
| "isPipelineError (pipeline_done tt tm) = False"
| "isPipelineError (unknown_event ty) = False"

fun noPipelineError :: "Event list \<Rightarrow> bool" where
  "noPipelineError [] = True"
| "noPipelineError (e # es) = (\<not> isPipelineError e \<and> noPipelineError es)"

text \<open>The tokens that the \<open>agent_token\<close> events of a sequence carry for one agent id.\<close>

fun tokensOf :: "string \<Rightarrow> Event list \<Rightarrow> string" where
  "tokensOf aid [] = []"
| "tokensOf aid (agent_token a tok tt tps # es) =
     (if a = aid then nullish tok [] @ tokensOf aid es else tokensOf aid es)"
| "tokensOf aid (agent_start a prov # es) = tokensOf aid es"
| "tokensOf aid (agent_vram a v # es) = tokensOf aid es"
| "tokensOf aid (agent_done a tt tps lat v prov # es) = tokensOf aid es"
| "tokensOf aid (stage_parallel si ids # es) = tokensOf aid es"
| "tokensOf aid (pipeline_done tt tm # es) = tokensOf aid es"
| "tokensOf aid (pipeline_error msg # es) = tokensOf aid es"
| "tokensOf aid (unknown_event ty # es) = tokensOf aid es"

text \<open>
  Whether a trace ends inside a parallel stage: a \<open>stage_parallel\<close> frame opens one,
  \<open>pipeline_done\<close> and \<open>pipeline_error\<close> close it, nothing else counts.
\<close>

fun closesStage :: "Action \<Rightarrow> bool" where
  "closesStage (Frame (pipeline_done tt tm)) = True"
| "closesStage (Frame (pipeline_error msg)) = True"
| "closesStage (Frame (agent_start aid prov)) = False"
| "closesStage (Frame (agent_token aid tok tt tps)) = False"
| "closesStage (Frame (agent_vram aid v)) = False"
| "closesStage (Frame (agent_done aid tt tps lat v prov)) = False"
| "closesStage (Frame (stage_parallel si ids)) = False"
| "closesStage (Frame (unknown_event ty)) = False"
| "closesStage Run = False"
| "closesStage Stop = False"
| "closesStage Reset = False"

fun opensStage :: "Action \<Rightarrow> bool" where
  "opensStage (Frame (stage_parallel si ids)) = True"
| "opensStage (Frame (pipeline_done tt tm)) = False"
| "opensStage (Frame (pipeline_error msg)) = False"
| "opensStage (Frame (agent_start aid prov)) = False"
| "opensStage (Frame (agent_token aid tok tt tps)) = False"
| "opensStage (Frame (agent_vram aid v)) = False"
| "opensStage (Frame (agent_done aid tt tps lat v prov)) = False"
| "opensStage (Frame (unknown_event ty)) = False"
| "opensStage Run = False"
| "opensStage Stop = False"
| "opensStage Reset = False"

fun stageOpen :: "Action list \<Rightarrow> bool \<Rightarrow> bool" where
  "stageOpen [] b = b"
| "stageOpen (a # as) b =
     stageOpen as (if opensStage a then True else if closesStage a then False else b)"

text \<open>The two things the \<open>catch\<close> of \<open>run\<close> asks of the caught value.\<close>

fun isAbortError :: "Thrown \<Rightarrow> bool" where
  "isAbortError (ErrorObject nm msg) = (nm = ''AbortError'')"
| "isAbortError (OtherValue str) = False"

fun thrownMessage :: "Thrown \<Rightarrow> string" where
  "thrownMessage (ErrorObject nm msg) = msg"
| "thrownMessage (OtherValue str) = str"


section \<open>Basic facts\<close>

lemma defaultMetrics_apply:
  "defaultMetrics aid = (if aid \<in> set DEFAULT_AGENT_IDS then Some idleMetrics else None)"
  by (simp add: defaultMetrics_def DEFAULT_AGENT_IDS_def)

lemma getMetrics_own: "m aid = Some r \<Longrightarrow> getMetrics m aid = Some r"
  by (simp add: getMetrics_def)

lemma getMetrics_plain_id:
  "aid \<notin> set OBJECT_PROTOTYPE_KEYS \<Longrightarrow> getMetrics m aid = m aid"
  by (simp add: getMetrics_def split: option.splits)

lemma handleEvent_error_kept:
  "\<not> isPipelineError e \<Longrightarrow> error (handleEvent e s) = error s"
  by (cases e) (simp_all add: Let_def split: option.splits)

lemma applyEvents_error_kept:
  "noPipelineError evs \<Longrightarrow> error (applyEvents evs s) = error s"
  by (induction evs arbitrary: s) (simp_all add: handleEvent_error_kept)

lemma tokensOf_Cons: "tokensOf aid (e # es) = tokensOf aid [e] @ tokensOf aid es"
  by (cases e) simp_all

lemma handleEvent_output_step:
  assumes "agentMetrics s aid = Some m" and "output_str m = Some out"
  shows "\<exists>m'. agentMetrics (handleEvent e s) aid = Some m'
            \<and> output_str m' = Some (out @ tokensOf aid [e])"
proof (cases e)
  case (agent_start a prov)
  with assms show ?thesis by (cases "a = aid") (simp_all add: getMetrics_own)
next
  case (agent_token a tok tt tps)
  with assms show ?thesis
    by (cases "a = aid") (simp_all add: getMetrics_own Let_def)
next
  case (agent_vram a v)
  with assms show ?thesis
    by (cases "a = aid") (simp_all add: getMetrics_own split: option.splits)
next
  case (agent_done a tt tps lat v prov)
  with assms show ?thesis
    by (cases "a = aid") (simp_all add: getMetrics_own split: option.splits)
qed (use assms in simp_all)

text \<open>
  For an agent whose record has an output, the output after any sequence of events is the
  old output followed by the tokens of its \<open>agent_token\<close> events, in arrival order.
\<close>

lemma output_concat_known_agent:
  assumes "agentMetrics s aid = Some m" and "output_str m = Some out"
  shows "\<exists>m'. agentMetrics (applyEvents evs s) aid = Some m'
            \<and> output_str m' = Some (out @ tokensOf aid evs)"
  using assms
proof (induction evs arbitrary: s m out)
  case Nil
  then show ?case by simp
next
  case (Cons e es)
  from handleEvent_output_step [OF Cons.prems, of e]
  obtain m1 where m1: "agentMetrics (handleEvent e s) aid = Some m1"
    "output_str m1 = Some (out @ tokensOf aid [e])" by blast
  from Cons.IH [OF m1] show ?case
    by (simp add: tokensOf_Cons [of aid e es])
qed

text \<open>Totals carried by an \<open>agent_token\<close> event replace the stored ones.\<close>

lemma agent_token_replaces:
  "\<exists>m'. agentMetrics (handleEvent (agent_token aid tok (Some n) (Some r)) s) aid = Some m'
        \<and> tokens m' = Some n \<and> tokensPerSec m' = Some r"
  by (simp add: Let_def)

text \<open>
  An id that has no record and is not the name of an inherited property: \<open>agent_vram\<close>
  and \<open>agent_done\<close> return the state as it is, and only the two creating events give it
  a record.
\<close>

lemma agent_vram_plain_unknown_id:
  assumes "agentMetrics s aid = None" and "aid \<notin> set OBJECT_PROTOTYPE_KEYS"
  shows "handleEvent (agent_vram aid v) s = s"
  using assms by (simp add: getMetrics_plain_id)

lemma agent_done_plain_unknown_id:
  assumes "agentMetrics s aid = None" and "aid \<notin> set OBJECT_PROTOTYPE_KEYS"
  shows "handleEvent (agent_done aid tt tps lat v prov) s = s"
  using assms by (simp add: getMetrics_plain_id)


lemma run_catch_cases:
  "run_catch t x =
     (if isAbortError t then x
      else x\<lparr>status := P_stopped,
             error := Some (''Connection failed: '' @ thrownMessage t
                              @ ''. Is the backend running?'')\<rparr>)"
  by (cases t) simp_all

lemma step_stage:
  "(activeParallelStage (state (step a sess)) \<noteq> None) =
     (if opensStage a then True else if closesStage a then False
      else activeParallelStage (state sess) \<noteq> None)"
proof (cases a)
  case (Frame e)
  then show ?thesis by (cases e) (simp_all add: Let_def split: option.splits)
qed (simp_all add: run_def stop_def reset_def)

text \<open>
  The stage field is set exactly when the trace ends inside a parallel stage; the calls
  \<open>run\<close>, \<open>stop\<close> and \<open>reset\<close> leave it as it is.
\<close>

lemma exec_stage:
  "(activeParallelStage (state (exec as sess)) \<noteq> None)
     = stageOpen as (activeParallelStage (state sess) \<noteq> None)"
proof (induction as arbitrary: sess)
  case Nil
  show ?case by simp
next
  case (Cons a as)
  show ?case by (simp only: exec.simps stageOpen.simps Cons.IH step_stage)
qed

section \<open>Properties of the run state machine\<close>

text \<open>
  C1. End-to-end scenario: from the state that \<open>run\<close> produces out of the initial one,
  the events \<open>agent_start\<close>, \<open>agent_token\<close> (token "Hi", 1 token, 5 tokens per second),
  \<open>agent_done\<close> (1 token, 5 tokens per second, 120 ms, 2.1 GB) for router-1 and
  \<open>pipeline_done\<close> (1 token, 120 ms), applied in this order, end in a state with status
  done, the metrics of router-1 done with these values and the output "Hi", and the
  totals 1 and 120.
\<close>

theorem end_to_end_scenario:
  "status (applyEvents
       [agent_start ''router-1'' None,
        agent_token ''router-1'' (Some ''Hi'') (Some 1) (Some 5),
        agent_done ''router-1'' (Some 1) (Some 5) (Some 120) (Some 2.1) None,
        pipeline_done (Some 1) (Some 120)]
       (state (run initialSession))) = P_done
   \<and> agentMetrics (applyEvents
       [agent_start ''router-1'' None,
        agent_token ''router-1'' (Some ''Hi'') (Some 1) (Some 5),
        agent_done ''router-1'' (Some 1) (Some 5) (Some 120) (Some 2.1) None,
        pipeline_done (Some 1) (Some 120)]
       (state (run initialSession))) ''router-1'' =
      Some \<lparr>AgentMetrics.status = Some A_done, tokens = Some 1, tokensPerSec = Some 5,
            latencyMs = Some 120, vramGb = Some 2.1, output_str = Some ''Hi'',
            provider = Some Simulation\<rparr>
   \<and> totalTokens (applyEvents
       [agent_start ''router-1'' None,
        agent_token ''router-1'' (Some ''Hi'') (Some 1) (Some 5),
        agent_done ''router-1'' (Some 1) (Some 5) (Some 120) (Some 2.1) None,
        pipeline_done (Some 1) (Some 120)]
       (state (run initialSession))) = 1
   \<and> totalMs (applyEvents
       [agent_start ''router-1'' None,
        agent_token ''router-1'' (Some ''Hi'') (Some 1) (Some 5),
        agent_done ''router-1'' (Some 1) (Some 5) (Some 120) (Some 2.1) None,
        pipeline_done (Some 1) (Some 120)]
       (state (run initialSession))) = 120"
  by (simp add: run_def initialSession_def initialState_def defaultMetrics_apply
        DEFAULT_AGENT_IDS_def idleMetrics_def getMetrics_def)

text \<open>
  C2. The output of an agent should be the concatenation of the tokens of its
  \<open>agent_token\<close> events. For an id outside the default set whose first event is
  \<open>agent_start\<close>, the record that \<open>agent_start\<close> builds has no output, and the first
  token is appended to the string conversion of the missing property: after
  \<open>agent_start\<close> and one \<open>agent_token\<close> carrying "Hi" for coder-2, the output is
  "undefinedHi", and latency and VRAM are still missing.
\<close>

theorem agent_start_then_token_output:
  "tokensOf ''coder-2''
       [agent_start ''coder-2'' None,
        agent_token ''coder-2'' (Some ''Hi'') (Some 1) (Some 5)] = ''Hi''
   \<and> agentMetrics (applyEvents
       [agent_start ''coder-2'' None,
        agent_token ''coder-2'' (Some ''Hi'') (Some 1) (Some 5)]
       (state (run initialSession))) ''coder-2'' =
     Some \<lparr>AgentMetrics.status = Some A_running, tokens = Some 1, tokensPerSec = Some 5,
           latencyMs = None, vramGb = None, output_str = Some ''undefinedHi'',
           provider = Some Simulation\<rparr>"
  by (simp add: run_def initialSession_def initialState_def defaultMetrics_apply
        DEFAULT_AGENT_IDS_def idleMetrics_def getMetrics_def OBJECT_PROTOTYPE_KEYS_def
        noProperties_def)




text \<open>
  C4. In a running state reached by \<open>run\<close> and a sequence of events without
  \<open>pipeline_error\<close>, \<open>stop\<close> gives status stopped and no error, and the abort error that
  the cancelled transport throws is caught without a state change, so the error stays
  empty. The two failures end in the same status with an error: any other caught value
  t gives stopped and the connection message built from t, and a \<open>pipeline_error\<close> event
  gives stopped and the message of the backend. So, before and after \<open>stop\<close>, the error
  is empty after a caught value exactly when that value is the abort error, and it is
  never empty after \<open>pipeline_error\<close>.
\<close>

theorem stop_is_silent:
  assumes "noPipelineError evs"
    and "state sess = applyEvents evs (state (run sess0))"
    and "status (state sess) = P_running"
  shows "status (state (stop sess)) = P_stopped
    \<and> error (state (stop sess)) = None
    \<and> run_catch (ErrorObject ''AbortError'' msg) (state (stop sess)) = state (stop sess)
    \<and> run_catch t (state sess) =
        (if isAbortError t then state sess
         else (state sess)\<lparr>status := P_stopped,
                error := Some (''Connection failed: '' @ thrownMessage t
                                 @ ''. Is the backend running?'')\<rparr>)
    \<and> (error (run_catch t (state sess)) = None) = isAbortError t
    \<and> (error (run_catch t (state (stop sess))) = None) = isAbortError t
    \<and> status (handleEvent (pipeline_error m) (state sess)) = P_stopped
    \<and> error (handleEvent (pipeline_error m) (state sess))
        = Some (nullish m ''Unknown error'')
    \<and> error (handleEvent (pipeline_error m) (state sess)) \<noteq> error (state (stop sess))"
proof -
  have "error (state sess) = error (state (run sess0))"
    using assms(1,2) by (simp add: applyEvents_error_kept)
  then have e: "error (state sess) = None" by (simp add: run_def)
  show ?thesis using e by (simp add: stop_def run_catch_cases)
qed

theorem stop_is_silent_witness:
  "noPipelineError [agent_start ''router-1'' None,
                    agent_token ''router-1'' (Some ''Hi'') (Some 1) (Some 5)]
   \<and> status (state (exec [Run, Frame (agent_start ''router-1'' None),
          Frame (agent_token ''router-1'' (Some ''Hi'') (Some 1) (Some 5))]
          initialSession)) = P_running
   \<and> status (state (exec [Run, Frame (agent_start ''router-1'' None),
          Frame (agent_token ''router-1'' (Some ''Hi'') (Some 1) (Some 5)), Stop]
          initialSession)) = P_stopped
   \<and> error (state (exec [Run, Frame (agent_start ''router-1'' None),
          Frame (agent_token ''router-1'' (Some ''Hi'') (Some 1) (Some 5)), Stop]
          initialSession)) = None
   \<and> error (run_catch (ErrorObject ''TypeError'' ''Failed to fetch'')
        (state (exec [Run, Frame (agent_start ''router-1'' None),
          Frame (agent_token ''router-1'' (Some ''Hi'') (Some 1) (Some 5))]
          initialSession)))
       = Some ''Connection failed: Failed to fetch. Is the backend running?''
   \<and> error (handleEvent (pipeline_error (Some ''model unavailable''))
        (state (exec [Run, Frame (agent_start ''router-1'' None),
          Frame (agent_token ''router-1'' (Some ''Hi'') (Some 1) (Some 5))]
          initialSession)))
       = Some ''model unavailable''"
proof -
  let ?evs = "[agent_start ''router-1'' None,
               agent_token ''router-1'' (Some ''Hi'') (Some 1) (Some 5)]"
  let ?sess = "exec (Run # map Frame ?evs) initialSession"
  let ?t = "ErrorObject ''TypeError'' ''Failed to fetch''"
  have h1: "noPipelineError ?evs" by simp
  have h2: "state ?sess = applyEvents ?evs (state (run initialSession))" by simp
  have h3: "status (state ?sess) = P_running" by (simp add: run_def Let_def)
  note w = stop_is_silent [OF h1 h2 h3, of "[]" ?t "Some ''model unavailable''"]
  have s1: "status (state (stop ?sess)) = P_stopped" using w by blast
  have s2: "error (state (stop ?sess)) = None" using w by blast
  have c: "run_catch ?t (state ?sess) =
        (if isAbortError ?t then state ?sess
         else (state ?sess)\<lparr>status := P_stopped,
                error := Some (''Connection failed: '' @ thrownMessage ?t
                                 @ ''. Is the backend running?'')\<rparr>)"
    using w by blast
  have s3: "error (run_catch ?t (state ?sess))
       = Some ''Connection failed: Failed to fetch. Is the backend running?''"
    by (simp only: c) simp
  have p: "error (handleEvent (pipeline_error (Some ''model unavailable'')) (state ?sess))
       = Some (nullish (Some ''model unavailable'') ''Unknown error'')"
    using w by blast
  have s4: "error (handleEvent (pipeline_error (Some ''model unavailable'')) (state ?sess))
       = Some ''model unavailable''"
    using p by simp
  from h1 h3 s1 s2 s3 s4 show ?thesis by simp
qed

text \<open>
  C5. A \<open>pipeline_error\<close> event with message m, applied to a running state, gives status
  stopped, the error m and no active parallel stage.
\<close>

theorem pipeline_error_stops:
  assumes "status s = P_running"
  shows "status (handleEvent (pipeline_error (Some m)) s) = P_stopped
    \<and> error (handleEvent (pipeline_error (Some m)) s) = Some m
    \<and> activeParallelStage (handleEvent (pipeline_error (Some m)) s) = None"
  by simp

theorem pipeline_error_stops_witness:
  "status (handleEvent (stage_parallel (Some 1) (Some [''coder-1'', ''analyzer-1'']))
       (state (run initialSession))) = P_running
   \<and> status (handleEvent (pipeline_error (Some ''model unavailable''))
       (handleEvent (stage_parallel (Some 1) (Some [''coder-1'', ''analyzer-1'']))
         (state (run initialSession)))) = P_stopped
   \<and> error (handleEvent (pipeline_error (Some ''model unavailable''))
       (handleEvent (stage_parallel (Some 1) (Some [''coder-1'', ''analyzer-1'']))
         (state (run initialSession)))) = Some ''model unavailable''
   \<and> activeParallelStage (handleEvent (pipeline_error (Some ''model unavailable''))
       (handleEvent (stage_parallel (Some 1) (Some [''coder-1'', ''analyzer-1'']))
         (state (run initialSession)))) = None"
proof -
  have h: "status (handleEvent (stage_parallel (Some 1) (Some [''coder-1'', ''analyzer-1'']))
       (state (run initialSession))) = P_running"
    by (simp add: run_def)
  from pipeline_error_stops [OF h, of "''model unavailable''"] h show ?thesis by simp
qed

text \<open>
  C6. From every state, \<open>run\<close> gives, before anything of the request has arrived, status
  running, the metrics of exactly the default agents, each idle with zero tokens, rate,
  latency and VRAM and an empty output, zero totals and no error.
\<close>

theorem run_resets_state:
  "status (state (run sess)) = P_running
   \<and> agentMetrics (state (run sess)) aid =
       (if aid \<in> set DEFAULT_AGENT_IDS
        then Some \<lparr>AgentMetrics.status = Some A_idle, tokens = Some 0,
                   tokensPerSec = Some 0, latencyMs = Some 0, vramGb = Some 0,
                   output_str = Some [], provider = Some Simulation\<rparr>
        else None)
   \<and> totalTokens (state (run sess)) = 0
   \<and> totalMs (state (run sess)) = 0
   \<and> error (state (run sess)) = None"
  by (simp add: run_def defaultMetrics_apply idleMetrics_def)

text \<open>
  C7. The active parallel stage should be empty in the states that \<open>stop\<close>, \<open>reset\<close> and
  a later \<open>run\<close> produce. None of the three touches the field: after \<open>run\<close> and a
  \<open>stage_parallel\<close> frame, the stage is still set after \<open>stop\<close>, after a following
  \<open>reset\<close>, and after a following \<open>run\<close>.
\<close>

theorem stage_survives_stop_reset_run:
  "activeParallelStage (state (exec
       [Run, Frame (stage_parallel (Some 1) (Some [''coder-1'', ''analyzer-1''])), Stop]
       initialSession))
     = Some \<lparr>stageIndex = Some 1, agentIds = Some [''coder-1'', ''analyzer-1'']\<rparr>
   \<and> activeParallelStage (state (exec
       [Run, Frame (stage_parallel (Some 1) (Some [''coder-1'', ''analyzer-1''])), Stop, Reset]
       initialSession))
     = Some \<lparr>stageIndex = Some 1, agentIds = Some [''coder-1'', ''analyzer-1'']\<rparr>
   \<and> activeParallelStage (state (exec
       [Run, Frame (stage_parallel (Some 1) (Some [''coder-1'', ''analyzer-1''])), Stop, Reset,
        Run]
       initialSession))
     = Some \<lparr>stageIndex = Some 1, agentIds = Some [''coder-1'', ''analyzer-1'']\<rparr>
   \<and> status (state (exec
       [Run, Frame (stage_parallel (Some 1) (Some [''coder-1'', ''analyzer-1''])), Stop, Reset]
       initialSession)) = P_idle"
  by (simp add: run_def stop_def reset_def)

text \<open>
  C8. An \<open>agent_vram\<close> event for an id without a metrics record should return the state
  as it is. The guard of the handler tests the value that the lookup yields, and for the
  name of an inherited property the lookup yields a built-in function: in the state after
  \<open>run\<close>, which has no record for the id "constructor", an \<open>agent_vram\<close> event for this
  id adds an entry that holds the VRAM value and nothing else.
\<close>

theorem agent_vram_inherited_name:
  "agentMetrics (state (run initialSession)) ''constructor'' = None
   \<and> agentMetrics
        (handleEvent (agent_vram ''constructor'' (Some 3.5)) (state (run initialSession)))
        ''constructor'' =
       Some \<lparr>AgentMetrics.status = None, tokens = None, tokensPerSec = None,
             latencyMs = None, vramGb = Some 3.5, output_str = None, provider = None\<rparr>
   \<and> handleEvent (agent_vram ''constructor'' (Some 3.5)) (state (run initialSession))
       \<noteq> state (run initialSession)"
proof -
  have absent: "agentMetrics (state (run initialSession)) ''constructor'' = None"
    by (simp add: run_def defaultMetrics_apply DEFAULT_AGENT_IDS_def)
  have added: "agentMetrics
        (handleEvent (agent_vram ''constructor'' (Some 3.5)) (state (run initialSession)))
        ''constructor'' =
       Some \<lparr>AgentMetrics.status = None, tokens = None, tokensPerSec = None,
             latencyMs = None, vramGb = Some 3.5, output_str = None, provider = None\<rparr>"
    using absent by (simp add: getMetrics_def OBJECT_PROTOTYPE_KEYS_def noProperties_def)
  have "handleEvent (agent_vram ''constructor'' (Some 3.5)) (state (run initialSession))
       \<noteq> state (run initialSession)"
  proof
    assume "handleEvent (agent_vram ''constructor'' (Some 3.5)) (state (run initialSession))
       = state (run initialSession)"
    with added have "agentMetrics (state (run initialSession)) ''constructor'' \<noteq> None"
      by simp
    with absent show False by simp
  qed
  with absent added show ?thesis by blast
qed

text \<open>
  C9. \<open>reset\<close> is idempotent: a second \<open>reset\<close> changes nothing. After one \<open>reset\<close> the
  status is idle, the metrics are the defaults, the totals are zero, there is no error
  and no transport is active.
\<close>

theorem reset_idempotent:
  "reset (reset sess) = reset sess
   \<and> status (state (reset sess)) = P_idle
   \<and> agentMetrics (state (reset sess)) = defaultMetrics
   \<and> totalTokens (state (reset sess)) = 0
   \<and> totalMs (state (reset sess)) = 0
   \<and> error (state (reset sess)) = None
   \<and> transportActive (reset sess) = False"
proof -
  have a: "abort (abort c) = abort c" for c by (cases c) simp_all
  have r: "cancel (cancel x) = cancel x" for x by (cases x) simp_all
  have la: "controllerLive (abort c) = False" for c by (cases c) simp_all
  have lr: "readerLive (cancel x) = False" for x by (cases x) simp_all
  show ?thesis by (simp add: reset_def transportActive_def a r la lr)
qed

text \<open>
  C10. A discovery poll both of whose requests fail (the fetch rejects, the response is
  not ok, or its body cannot be read) returns the state as it is: provider status,
  available models and all run state stay as they were.
\<close>

theorem failed_poll_keeps_state:
  assumes "requestFailed provRes" and "requestFailed modRes"
  shows "fetchStatus provRes modRes s = s"
  using assms by (cases provRes; cases modRes) (simp_all add: fetchStatus_def)

theorem failed_poll_keeps_state_witness:
  "requestFailed (NotOk :: ProvData Fetched)
   \<and> requestFailed (Rejected :: ModData Fetched)
   \<and> fetchStatus NotOk Rejected
        (fetchStatus
           (Json (Truthy (Some (ProvidersJson (Some True) None (Some True) None))))
           (Json (Truthy (Some [''ollama'' \<mapsto> [''llama3'']])))
           initialState)
     = fetchStatus
           (Json (Truthy (Some (ProvidersJson (Some True) None (Some True) None))))
           (Json (Truthy (Some [''ollama'' \<mapsto> [''llama3'']])))
           initialState
   \<and> providerStatus (fetchStatus NotOk Rejected
        (fetchStatus
           (Json (Truthy (Some (ProvidersJson (Some True) None (Some True) None))))
           (Json (Truthy (Some [''ollama'' \<mapsto> [''llama3'']])))
           initialState))
     = \<lparr>ollama = True, lmstudio = False, llamacpp = True, transformers = False\<rparr>"
proof -
  have h1: "requestFailed (NotOk :: ProvData Fetched)" by simp
  have h2: "requestFailed (Rejected :: ModData Fetched)" by simp
  have v: "providerStatus (fetchStatus
           (Json (Truthy (Some (ProvidersJson (Some True) None (Some True) None))))
           (Json (Truthy (Some [''ollama'' \<mapsto> [''llama3'']])))
           initialState)
     = \<lparr>ollama = True, lmstudio = False, llamacpp = True, transformers = False\<rparr>"
    by (simp add: fetchStatus_def)
  from failed_poll_keeps_state [OF h1 h2,
      of "fetchStatus
           (Json (Truthy (Some (ProvidersJson (Some True) None (Some True) None))))
           (Json (Truthy (Some [''ollama'' \<mapsto> [''llama3'']])))
           initialState"] h1 h2 v
  show ?thesis by simp
qed

end
